theory Spec2Isabelle
  imports Complex_Main
begin

section \<open>Tiger: the rating attempt of calculate\_ratings.py\<close>

text \<open>
  The embedding follows \<^verbatim>\<open>src/calculate_ratings.py\<close>. Python floats are modelled
  as real numbers, Python integers as \<open>int\<close>, list positions and team indexes as \<open>nat\<close>,
  dictionaries as maps. A run of the model ends with an error value where Python raises,
  and also where floating-point arithmetic leaves the real numbers: numpy answers a
  division by zero with \<open>inf\<close> or \<open>nan\<close> and the logarithm of a negative number with
  \<open>nan\<close>, and the program carries on with that value; the model stops there.
\<close>

datatype error =
    KeyError          \<comment> \<open>a dictionary has no such key\<close>
  | IndexError        \<comment> \<open>a list position is out of range\<close>
  | TypeError         \<comment> \<open>\<open>None\<close> where a number is needed\<close>
  | DivisionByZero    \<comment> \<open>the divisor is zero: \<open>ZeroDivisionError\<close>, or \<open>inf\<close>/\<open>nan\<close> from numpy\<close>
  | NotANumber        \<comment> \<open>\<open>np.log\<close> of a negative number\<close>
  | NameError         \<comment> \<open>a variable is read before any assignment to it\<close>

definition bnd :: "error + 'a \<Rightarrow> ('a \<Rightarrow> error + 'b) \<Rightarrow> error + 'b" where
  "bnd m f = (case m of Inl e \<Rightarrow> Inl e | Inr x \<Rightarrow> f x)"

definition lookup :: "('k \<rightharpoonup> 'v) \<Rightarrow> 'k \<Rightarrow> error + 'v" where
  "lookup d k = (case d k of None \<Rightarrow> Inl KeyError | Some v \<Rightarrow> Inr v)"

definition item :: "'a list \<Rightarrow> nat \<Rightarrow> error + 'a" where
  "item xs i = (if i < length xs then Inr (xs ! i) else Inl IndexError)"

definition add_at :: "real list \<Rightarrow> nat \<Rightarrow> real \<Rightarrow> error + real list" where
  "add_at xs i v = (if i < length xs then Inr (xs[i := xs ! i + v]) else Inl IndexError)"

subsection \<open>The arguments of \<open>rating_attempt\<close>\<close>

text \<open>
  One record holds the arguments of \<open>rating_attempt\<close>. Two fields stand for library code
  outside the repository: \<open>norm_cdf x loc scale\<close> is \<open>scipy.stats.norm.cdf\<close>, and
  \<open>std_normal k\<close> is the \<open>k\<close>-th standard normal variate of the generator that
  \<open>np.random.default_rng(seed = [attempt])\<close> creates, so that
  \<open>update_rng.normal(loc, scale)\<close> is \<open>loc + scale * std_normal k\<close>.
\<close>

record 't env =
  teams_in_network :: "nat list"
  network_game_id_list :: "nat list"
  input_games_home_id :: "'t list"
  input_games_away_id :: "'t list"
  input_games_home_score :: "int list"
  input_games_away_score :: "int list"
  input_games_season :: "int list"
  input_games_is_neutral_site :: "bool list"
  input_games_is_preseason :: "bool list"
  id_to_index :: "'t \<rightharpoonup> nat"
  id_to_all_index :: "'t \<rightharpoonup> nat"
  season_to_rank :: int
  preseason_weight :: real
  prior_season_weight :: real
  prior_preseason_weight :: real
  use_preseason_var :: bool
  game_network_edge_centrality :: "(nat \<times> nat \<times> nat) \<rightharpoonup> real"
  network_game_score_mean :: real
  network_game_margin_stdev :: real
  iterations_before_reset :: int
  iterations_before_stop :: int
  rating_adjustment_scale :: real
  norm_cdf :: "real \<Rightarrow> real \<Rightarrow> real \<Rightarrow> real"
  std_normal :: "nat \<Rightarrow> real"

subsection \<open>The local variables of \<open>rating_attempt\<close>\<close>

record state =
  best_team_off_ratings :: "real list"
  best_team_def_ratings :: "real list"
  best_team_ratings :: "real list"
  best_abs_total_error :: "real option"
  best_home_advantage :: real
  terminate_search :: bool
  first_iteration :: bool
  cur_team_off_ratings :: "real list"
  cur_team_def_ratings :: "real list"
  cur_team_ratings :: "real list"
  cur_home_advantage :: real
  iterations_since_last_update :: int
  total_home_margin_error_weight :: real
  home_predicted_margin_list :: "real list"
  total_team_off_margin_error_weight :: "real list"
  total_team_def_margin_error_weight :: "real list"
  home_predicted_off_score_list :: "real list"
  home_predicted_def_score_list :: "real list"
  total_team_weight :: "real list"
  total_notneutral_weight :: real
  home_actual_margin_list :: "int list"
  gt_game_weight_list :: "real list"
  home_actual_off_score_list :: "int list"
  home_actual_def_score_list :: "int list"
  draws_used :: nat

text \<open>Lines 33 to 47: every rating starts at zero.\<close>

definition initial_state :: "'t env \<Rightarrow> state" where
  "initial_state env =
     (let z = replicate (length (teams_in_network env)) (0::real) in
      \<lparr> best_team_off_ratings = z, best_team_def_ratings = z,
        best_team_ratings = map2 (+) z z,
        best_abs_total_error = None, best_home_advantage = 0,
        terminate_search = False, first_iteration = True,
        cur_team_off_ratings = z, cur_team_def_ratings = z,
        cur_team_ratings = map2 (+) z z,
        cur_home_advantage = 0, iterations_since_last_update = 0,
        total_home_margin_error_weight = 0, home_predicted_margin_list = [],
        total_team_off_margin_error_weight = [], total_team_def_margin_error_weight = [],
        home_predicted_off_score_list = [], home_predicted_def_score_list = [],
        total_team_weight = [], total_notneutral_weight = 0,
        home_actual_margin_list = [], gt_game_weight_list = [],
        home_actual_off_score_list = [], home_actual_def_score_list = [],
        draws_used = 0 \<rparr>)"

subsection \<open>One game of the loop over the network's games\<close>

text \<open>Lines 80 to 94: the weight of a game by its season and its preseason flag.\<close>

definition cur_game_weight :: "'t env \<Rightarrow> nat \<Rightarrow> int \<Rightarrow> error + real" where
  "cur_game_weight env g season =
     (if season = season_to_rank env then
        (if use_preseason_var env then
           bnd (item (input_games_is_preseason env) g)
             (\<lambda>pre. Inr (if pre then preseason_weight env else 1))
         else Inr 1)
      else if season < season_to_rank env then
        (if use_preseason_var env then
           bnd (item (input_games_is_preseason env) g)
             (\<lambda>pre. Inr (if pre then prior_preseason_weight env else prior_season_weight env))
         else Inr (prior_season_weight env))
      else Inr 0)"

text \<open>
  Line 96: the weight divided by \<open>np.log(1 / centrality)\<close>, the centrality read under the
  key \<open>(min, max, 0)\<close> of the two all-team indexes.
\<close>

definition cur_game_gt_weight :: "'t env \<Rightarrow> real \<Rightarrow> nat \<Rightarrow> nat \<Rightarrow> error + real" where
  "cur_game_gt_weight env w home_allidx away_allidx =
     bnd (lookup (game_network_edge_centrality env)
            (min home_allidx away_allidx, max home_allidx away_allidx, 0))
       (\<lambda>c. if c = 0 then Inl DivisionByZero
            else if 1 / c < 0 then Inl NotANumber
            else if ln (1 / c) = 0 then Inl DivisionByZero
            else Inr (w / ln (1 / c)))"

text \<open>Lines 99 and 100: \<open>int(not neutral) * home_advantage / 2.0\<close>.\<close>

definition home_term :: "bool \<Rightarrow> real \<Rightarrow> real" where
  "home_term neutral adv = (if neutral then 0 else 1) * adv / 2"

record game =
  homeidx :: nat
  awayidx :: nat
  home_score :: int
  away_score :: int
  gt_weight :: real
  is_neutral_site :: bool
  predicted_off_score :: real
  predicted_def_score :: real
  predicted_margin :: real

text \<open>Lines 70 to 101, in the order in which the source reads its lists and dictionaries.\<close>

definition cur_game :: "'t env \<Rightarrow> state \<Rightarrow> nat \<Rightarrow> error + game" where
  "cur_game env s g =
     bnd (item (input_games_home_id env) g) (\<lambda>home_teamid.
     bnd (item (input_games_away_id env) g) (\<lambda>away_teamid.
     bnd (lookup (id_to_index env) home_teamid) (\<lambda>hidx.
     bnd (lookup (id_to_index env) away_teamid) (\<lambda>aidx.
     bnd (lookup (id_to_all_index env) home_teamid) (\<lambda>home_allidx.
     bnd (lookup (id_to_all_index env) away_teamid) (\<lambda>away_allidx.
     bnd (item (input_games_home_score env) g) (\<lambda>hs.
     bnd (item (input_games_away_score env) g) (\<lambda>as.
     bnd (item (input_games_season env) g) (\<lambda>season.
     bnd (cur_game_weight env g season) (\<lambda>w.
     bnd (cur_game_gt_weight env w home_allidx away_allidx) (\<lambda>gw.
     bnd (item (input_games_is_neutral_site env) g) (\<lambda>neutral.
     bnd (item (cur_team_off_ratings s) hidx) (\<lambda>off_home.
     bnd (item (cur_team_def_ratings s) aidx) (\<lambda>def_away.
     bnd (item (cur_team_off_ratings s) aidx) (\<lambda>off_away.
     bnd (item (cur_team_def_ratings s) hidx) (\<lambda>def_home.
       let p_off = max (off_home + home_term neutral (cur_home_advantage s) - def_away
                          + network_game_score_mean env) 0;
           p_def = max (off_away - home_term neutral (cur_home_advantage s) - def_home
                          + network_game_score_mean env) 0
       in Inr \<lparr> homeidx = hidx, awayidx = aidx, home_score = hs, away_score = as,
                gt_weight = gw, is_neutral_site = neutral,
                predicted_off_score = p_off, predicted_def_score = p_def,
                predicted_margin = p_off - p_def \<rparr>))))))))))))))))"

text \<open>Lines 105 to 113: what the first iteration stores once for all iterations.\<close>

definition store_first :: "state \<Rightarrow> game \<Rightarrow> error + state" where
  "store_first s gm =
     (if first_iteration s then
        bnd (add_at (total_team_weight s) (homeidx gm) (gt_weight gm)) (\<lambda>tw1.
        bnd (add_at tw1 (awayidx gm) (gt_weight gm)) (\<lambda>tw2.
          Inr (s\<lparr> total_team_weight := tw2,
                  total_notneutral_weight :=
                    (if is_neutral_site gm then total_notneutral_weight s
                     else total_notneutral_weight s + gt_weight gm),
                  home_actual_margin_list :=
                    home_actual_margin_list s @ [home_score gm - away_score gm],
                  home_actual_off_score_list := home_actual_off_score_list s @ [home_score gm],
                  home_actual_def_score_list := home_actual_def_score_list s @ [away_score gm],
                  gt_game_weight_list := gt_game_weight_list s @ [gt_weight gm] \<rparr>)))
      else Inr s)"

text \<open>Lines 115 to 127: the predictions and the weighted errors of one game.\<close>

definition store_errors :: "state \<Rightarrow> game \<Rightarrow> error + state" where
  "store_errors s gm =
     (let margin_error = real_of_int (home_score gm - away_score gm) - predicted_margin gm;
          off_margin_error = real_of_int (home_score gm) - predicted_off_score gm;
          def_margin_error = real_of_int (away_score gm) - predicted_def_score gm
      in
        bnd (add_at (total_team_off_margin_error_weight s) (homeidx gm)
               (off_margin_error * gt_weight gm)) (\<lambda>eo1.
        bnd (add_at (total_team_def_margin_error_weight s) (homeidx gm)
               (- (def_margin_error * gt_weight gm))) (\<lambda>ed1.
        bnd (add_at eo1 (awayidx gm) (def_margin_error * gt_weight gm)) (\<lambda>eo2.
        bnd (add_at ed1 (awayidx gm) (- (off_margin_error * gt_weight gm))) (\<lambda>ed2.
          Inr (s\<lparr> home_predicted_margin_list :=
                    home_predicted_margin_list s @ [predicted_margin gm],
                  home_predicted_off_score_list :=
                    home_predicted_off_score_list s @ [predicted_off_score gm],
                  home_predicted_def_score_list :=
                    home_predicted_def_score_list s @ [predicted_def_score gm],
                  total_team_off_margin_error_weight := eo2,
                  total_team_def_margin_error_weight := ed2,
                  total_home_margin_error_weight :=
                    (if is_neutral_site gm then total_home_margin_error_weight s
                     else total_home_margin_error_weight s + margin_error * gt_weight gm)
                \<rparr>))))))"

text \<open>Lines 68 to 127: the loop over the games of the network.\<close>

fun games_loop :: "'t env \<Rightarrow> state \<Rightarrow> nat list \<Rightarrow> error + state" where
  "games_loop env s [] = Inr s"
| "games_loop env s (g # gs) =
     bnd (cur_game env s g) (\<lambda>gm.
     bnd (store_first s gm) (\<lambda>s1.
     bnd (store_errors s1 gm) (\<lambda>s2.
       games_loop env s2 gs)))"

subsection \<open>The error of an iteration and the best ratings so far\<close>

text \<open>
  Lines 129 to 131: the weighted sum of the absolute differences between the normal
  distribution function at the actual and at the predicted values.
\<close>

definition cdf_error :: "'t env \<Rightarrow> real \<Rightarrow> real list \<Rightarrow> real list \<Rightarrow> real list \<Rightarrow> real" where
  "cdf_error env loc ws actual predicted =
     sum_list (map (\<lambda>(w, a, p).
         w * \<bar>norm_cdf env a loc (network_game_margin_stdev env)
                - norm_cdf env p loc (network_game_margin_stdev env)\<bar>)
       (zip ws (zip actual predicted)))"

definition abs_total_error :: "'t env \<Rightarrow> state \<Rightarrow> real" where
  "abs_total_error env s =
     cdf_error env 0 (gt_game_weight_list s)
       (map real_of_int (home_actual_margin_list s)) (home_predicted_margin_list s)
     + cdf_error env (network_game_score_mean env)
         (gt_game_weight_list s @ gt_game_weight_list s)
         (map real_of_int (home_actual_off_score_list s @ home_actual_def_score_list s))
         (home_predicted_off_score_list s @ home_predicted_def_score_list s)"

text \<open>Lines 133 to 139: is this iteration the best one so far?\<close>

definition update_best_stats :: "state \<Rightarrow> real \<Rightarrow> error + bool" where
  "update_best_stats s err =
     (if first_iteration s then Inr True
      else case best_abs_total_error s of
             None \<Rightarrow> Inl TypeError
           | Some b \<Rightarrow> Inr (err < b))"

text \<open>
  Lines 141 to 156: the best ratings are replaced by the current ones, or the counter of
  iterations without improvement goes up and, at every multiple of
  \<open>iterations_before_reset\<close>, the current ratings are replaced by the best ones.
\<close>

definition track_best :: "'t env \<Rightarrow> state \<Rightarrow> real \<Rightarrow> error + state" where
  "track_best env s err =
     bnd (update_best_stats s err) (\<lambda>better.
       if better then
         Inr (s\<lparr> best_team_off_ratings := cur_team_off_ratings s,
                 best_team_def_ratings := cur_team_def_ratings s,
                 best_team_ratings := cur_team_ratings s,
                 best_home_advantage := cur_home_advantage s,
                 best_abs_total_error := Some err,
                 iterations_since_last_update := 0 \<rparr>)
       else
         (let n = iterations_since_last_update s + 1 in
          if iterations_before_reset env = 0 then Inl DivisionByZero
          else if n mod iterations_before_reset env = 0 then
            Inr (s\<lparr> iterations_since_last_update := n,
                    cur_team_off_ratings := best_team_off_ratings s,
                    cur_team_def_ratings := best_team_def_ratings s,
                    cur_team_ratings := best_team_ratings s,
                    cur_home_advantage := best_home_advantage s \<rparr>)
          else Inr (s\<lparr> iterations_since_last_update := n \<rparr>)))"

subsection \<open>The update of the ratings\<close>

text \<open>\<open>update_rng.normal(loc, scale)\<close> with the \<open>k\<close>-th variate of the generator.\<close>

definition normal :: "'t env \<Rightarrow> nat \<Rightarrow> real \<Rightarrow> real \<Rightarrow> real" where
  "normal env k loc scale = loc + scale * std_normal env k"

text \<open>
  Lines 160 to 162: every team's offense and defense rating moves by a normal variate
  whose mean is the team's weighted error divided by the team's total weight.
\<close>

fun update_teams :: "'t env \<Rightarrow> state \<Rightarrow> nat list \<Rightarrow> error + state" where
  "update_teams env s [] = Inr s"
| "update_teams env s (i # is) =
     bnd (item (cur_team_off_ratings s) i) (\<lambda>off_i.
     bnd (item (total_team_off_margin_error_weight s) i) (\<lambda>eo.
     bnd (item (total_team_weight s) i) (\<lambda>tw.
       if tw = 0 \<or> rating_adjustment_scale env = 0 then Inl DivisionByZero
       else
     bnd (item (cur_team_def_ratings s) i) (\<lambda>def_i.
     bnd (item (total_team_def_margin_error_weight s) i) (\<lambda>ed.
       update_teams env
         (s\<lparr> cur_team_off_ratings := (cur_team_off_ratings s)
                   [i := off_i + normal env (draws_used s)
                           ((eo / tw) / rating_adjustment_scale env)
                           (1 / rating_adjustment_scale env)],
              cur_team_def_ratings := (cur_team_def_ratings s)
                   [i := def_i + normal env (draws_used s + 1)
                           ((ed / tw) / rating_adjustment_scale env)
                           (1 / rating_adjustment_scale env)],
              draws_used := draws_used s + 2 \<rparr>) is)))))"

text \<open>Line 164: the home advantage moves in the same way.\<close>

definition update_home_advantage :: "'t env \<Rightarrow> state \<Rightarrow> error + state" where
  "update_home_advantage env s =
     (if total_notneutral_weight s = 0 \<or> rating_adjustment_scale env = 0
      then Inl DivisionByZero
      else Inr (s\<lparr> cur_home_advantage := cur_home_advantage s
                     + normal env (draws_used s)
                         ((total_home_margin_error_weight s / total_notneutral_weight s)
                            / rating_adjustment_scale env)
                         (1 / rating_adjustment_scale env),
                   draws_used := draws_used s + 1 \<rparr>))"

definition mean :: "real list \<Rightarrow> real" where
  "mean xs = sum_list xs / real (length xs)"

text \<open>Lines 166 and 167: \<open>np.subtract(xs, np.mean(xs))\<close>.\<close>

definition center :: "real list \<Rightarrow> real list" where
  "center xs = map (\<lambda>x. x - mean xs) xs"

text \<open>Lines 160 to 169.\<close>

definition update_ratings :: "'t env \<Rightarrow> state \<Rightarrow> error + state" where
  "update_ratings env s =
     bnd (update_teams env s [0 ..< length (cur_team_ratings s)]) (\<lambda>s1.
     bnd (update_home_advantage env s1) (\<lambda>s2.
       let off = center (cur_team_off_ratings s2);
           def = center (cur_team_def_ratings s2)
       in Inr (s2\<lparr> cur_team_off_ratings := off,
                    cur_team_def_ratings := def,
                    cur_team_ratings := map2 (+) off def \<rparr>)))"

subsection \<open>One iteration, and the search\<close>

text \<open>Lines 51 to 65: the lists that an iteration starts from.\<close>

definition start_iteration :: "'t env \<Rightarrow> state \<Rightarrow> state" where
  "start_iteration env s =
     (let z = replicate (length (teams_in_network env)) (0::real);
          s1 = s\<lparr> total_home_margin_error_weight := 0,
                   home_predicted_margin_list := [],
                   total_team_off_margin_error_weight := z,
                   total_team_def_margin_error_weight := z,
                   home_predicted_off_score_list := [],
                   home_predicted_def_score_list := [] \<rparr>
      in if first_iteration s then
           s1\<lparr> total_team_weight := z, total_notneutral_weight := 0,
                home_actual_margin_list := [], gt_game_weight_list := [],
                home_actual_off_score_list := [], home_actual_def_score_list := [] \<rparr>
         else s1)"

text \<open>Lines 51 to 174: the body of the \<open>while\<close> loop.\<close>

definition iteration :: "'t env \<Rightarrow> state \<Rightarrow> error + state" where
  "iteration env s =
     bnd (games_loop env (start_iteration env s) (network_game_id_list env)) (\<lambda>s1.
     bnd (track_best env s1 (abs_total_error env s1)) (\<lambda>s2.
     bnd (if iterations_since_last_update s2 < iterations_before_stop env
          then update_ratings env s2
          else Inr (s2\<lparr> terminate_search := True \<rparr>)) (\<lambda>s3.
       Inr (s3\<lparr> first_iteration := False \<rparr>))))"




text \<open>
  The state after at most \<open>k\<close> passes through the body of the loop, from the state \<open>s\<close>:
  the loop does nothing more once \<open>terminate_search\<close> is set.
\<close>

fun iterations :: "'t env \<Rightarrow> nat \<Rightarrow> state \<Rightarrow> error + state" where
  "iterations env 0 s = Inr s"
| "iterations env (Suc k) s =
     (if terminate_search s then Inr s
      else bnd (iteration env s) (iterations env k))"

section \<open>The calibration of the error model in \<open>main\<close>\<close>

text \<open>
  The variables of \<open>main\<close> that the calibration reads besides the arguments of
  \<open>rating_attempt\<close>. The loops of lines 482 and 539 read \<open>cur_game_season\<close> and never
  assign it: the field holds what the earlier loops of \<open>main\<close> left in the variable.
\<close>

record calib =
  input_games_home_listid :: "nat list"
  input_games_away_listid :: "nat list"
  teams_in_network_reverse :: "nat option list"
  cur_game_season :: "int option"
  median_team_off_ratings :: "real list"
  median_team_def_ratings :: "real list"
  median_team_ratings :: "real list"
  median_home_advantage :: real

text \<open>
  Lines 345 to 407 assign \<open>cur_game_season\<close> in loops over the played and then over the
  unplayed games; the last of these loops to run at all is the one of line 395 over the
  unplayed games, before it the one of line 382 over the played games.
\<close>

definition season_left_by_loops :: "int list \<Rightarrow> int list \<Rightarrow> int option" where
  "season_left_by_loops played_seasons unplayed_seasons =
     (if unplayed_seasons \<noteq> [] then Some (last unplayed_seasons)
      else if played_seasons \<noteq> [] then Some (last played_seasons)
      else None)"

definition variable :: "'a option \<Rightarrow> error + 'a" where
  "variable v = (case v of None \<Rightarrow> Inl NameError | Some x \<Rightarrow> Inr x)"

definition number :: "'a option \<Rightarrow> error + 'a" where
  "number v = (case v of None \<Rightarrow> Inl TypeError | Some x \<Rightarrow> Inr x)"

text \<open>Lines 483 to 491: is the game part of the three samples of errors?\<close>

definition include_game :: "'t env \<Rightarrow> calib \<Rightarrow> nat \<Rightarrow> error + bool" where
  "include_game env cv g =
     bnd (if use_preseason_var env then
            bnd (item (input_games_is_preseason env) g) (\<lambda>pre.
            bnd (variable (cur_game_season cv)) (\<lambda>season.
              Inr (\<not> (pre \<and> preseason_weight env = 0)
                   \<and> \<not> (season < season_to_rank env \<and> prior_preseason_weight env = 0 \<and> pre))))
          else Inr True) (\<lambda>inc.
     bnd (variable (cur_game_season cv)) (\<lambda>season.
       Inr (inc \<and> \<not> (season < season_to_rank env \<and> prior_season_weight env = 0))))"

record prediction =
  cal_predicted_margin :: real
  cal_predicted_home_score :: real
  cal_predicted_away_score :: real
  cal_home_score :: int
  cal_away_score :: int

text \<open>Lines 493 to 504: the predictions of the calibration for one game.\<close>

definition predict_game :: "'t env \<Rightarrow> calib \<Rightarrow> nat \<Rightarrow> error + prediction" where
  "predict_game env cv g =
     bnd (item (input_games_home_listid cv) g) (\<lambda>homeid.
     bnd (item (input_games_away_listid cv) g) (\<lambda>awayid.
     bnd (item (teams_in_network_reverse cv) homeid) (\<lambda>h.
     bnd (item (teams_in_network_reverse cv) awayid) (\<lambda>a.
     bnd (item (input_games_home_score env) g) (\<lambda>hs.
     bnd (item (input_games_away_score env) g) (\<lambda>as.
     bnd (item (input_games_is_neutral_site env) g) (\<lambda>neutral.
     bnd (number h) (\<lambda>hidx.
     bnd (number a) (\<lambda>aidx.
     bnd (item (median_team_ratings cv) hidx) (\<lambda>rating_home.
     bnd (item (median_team_ratings cv) aidx) (\<lambda>rating_away.
     bnd (item (median_team_off_ratings cv) hidx) (\<lambda>off_home.
     bnd (item (median_team_def_ratings cv) aidx) (\<lambda>def_away.
     bnd (item (median_team_off_ratings cv) aidx) (\<lambda>off_away.
     bnd (item (median_team_def_ratings cv) hidx) (\<lambda>def_home.
       Inr \<lparr> cal_predicted_margin =
                 rating_home + (if neutral then 0 else 1) * median_home_advantage cv
                   - rating_away,
               cal_predicted_home_score =
                 off_home + home_term neutral (median_home_advantage cv) - def_away
                   + network_game_score_mean env,
               cal_predicted_away_score =
                 off_away - home_term neutral (median_home_advantage cv) + def_home
                   + network_game_score_mean env,
               cal_home_score = hs, cal_away_score = as \<rparr>)))))))))))))))"

record samples =
  prediction_errors :: "real list"
  score_prediction_errors :: "real list"
  total_score_prediction_errors :: "real list"

text \<open>Lines 505 to 511: the errors of one game join the three samples.\<close>

definition add_errors :: "samples \<Rightarrow> prediction \<Rightarrow> samples" where
  "add_errors sm p =
     \<lparr> prediction_errors = prediction_errors sm
         @ [cal_predicted_margin p - real_of_int (cal_home_score p - cal_away_score p)],
       score_prediction_errors = score_prediction_errors sm
         @ [cal_predicted_home_score p - real_of_int (cal_home_score p),
            cal_predicted_away_score p - real_of_int (cal_away_score p)],
       total_score_prediction_errors = total_score_prediction_errors sm
         @ [(cal_predicted_home_score p + cal_predicted_away_score p)
              - real_of_int (cal_home_score p + cal_away_score p)] \<rparr>"

text \<open>Lines 479 to 511.\<close>

fun errors_loop :: "'t env \<Rightarrow> calib \<Rightarrow> samples \<Rightarrow> nat list \<Rightarrow> error + samples" where
  "errors_loop env cv sm [] = Inr sm"
| "errors_loop env cv sm (g # gs) =
     bnd (include_game env cv g) (\<lambda>inc.
       if inc then bnd (predict_game env cv g) (\<lambda>p. errors_loop env cv (add_errors sm p) gs)
       else errors_loop env cv sm gs)"

definition calibration_errors :: "'t env \<Rightarrow> calib \<Rightarrow> error + samples" where
  "calibration_errors env cv =
     errors_loop env cv
       \<lparr> prediction_errors = [], score_prediction_errors = [],
         total_score_prediction_errors = [] \<rparr>
       (network_game_id_list env)"

section \<open>The search for the tie bound in \<open>main\<close>\<close>

text \<open>
  The values that the search reads besides those above. \<open>t_cdf x df loc scale\<close> is
  \<open>scipy.stats.t.cdf\<close>, library code outside the repository, as \<open>norm_cdf\<close> is.
\<close>

record tie_args =
  use_normal :: bool
  prediction_error_df :: real
  prediction_error_stdev :: real
  tie_probability :: real
  tie_cdf_search_interval :: real
  t_cdf :: "real \<Rightarrow> real \<Rightarrow> real \<Rightarrow> real \<Rightarrow> real"

text \<open>Lines 540 to 546: is the game part of the average?\<close>

definition tie_include_game :: "'t env \<Rightarrow> calib \<Rightarrow> nat \<Rightarrow> error + bool" where
  "tie_include_game env cv g =
     bnd (if use_preseason_var env then
            bnd (item (input_games_is_preseason env) g) (\<lambda>pre.
              Inr (\<not> (pre \<and> preseason_weight env = 0)))
          else Inr True) (\<lambda>inc.
     bnd (variable (cur_game_season cv)) (\<lambda>season.
       Inr (inc \<and> \<not> (season < season_to_rank env \<and> prior_season_weight env = 0))))"

text \<open>Lines 548 to 555: the margin that the aggregated ratings predict for a game.\<close>

definition tie_predicted_margin :: "'t env \<Rightarrow> calib \<Rightarrow> nat \<Rightarrow> error + real" where
  "tie_predicted_margin env cv g =
     bnd (item (input_games_home_listid cv) g) (\<lambda>homeid.
     bnd (item (input_games_away_listid cv) g) (\<lambda>awayid.
     bnd (item (teams_in_network_reverse cv) homeid) (\<lambda>h.
     bnd (item (teams_in_network_reverse cv) awayid) (\<lambda>a.
     bnd (item (input_games_home_score env) g) (\<lambda>hs.
     bnd (item (input_games_away_score env) g) (\<lambda>as.
     bnd (item (input_games_is_neutral_site env) g) (\<lambda>neutral.
     bnd (number h) (\<lambda>hidx.
     bnd (number a) (\<lambda>aidx.
     bnd (item (median_team_ratings cv) hidx) (\<lambda>rating_home.
     bnd (item (median_team_ratings cv) aidx) (\<lambda>rating_away.
       Inr (rating_home + (if neutral then 0 else 1) * median_home_advantage cv
              - rating_away))))))))))))"

text \<open>
  Lines 556 to 559: the probability that the distribution of the errors, centred at the
  predicted margin, gives to the interval from \<open>- bound\<close> to \<open>bound\<close>.
\<close>

definition tie_mass :: "'t env \<Rightarrow> tie_args \<Rightarrow> real \<Rightarrow> real \<Rightarrow> real" where
  "tie_mass env ta bound margin =
     (if use_normal ta then
        norm_cdf env bound margin (prediction_error_stdev ta)
          - norm_cdf env (- bound) margin (prediction_error_stdev ta)
      else
        t_cdf ta bound (prediction_error_df ta) margin (prediction_error_stdev ta)
          - t_cdf ta (- bound) (prediction_error_df ta) margin (prediction_error_stdev ta))"

text \<open>Lines 539 to 560: the sum of these probabilities and the number of games in it.\<close>

fun tie_sum ::
  "'t env \<Rightarrow> calib \<Rightarrow> tie_args \<Rightarrow> real \<Rightarrow> real \<times> nat \<Rightarrow> nat list \<Rightarrow> error + real \<times> nat" where
  "tie_sum env cv ta bound acc [] = Inr acc"
| "tie_sum env cv ta bound acc (g # gs) =
     bnd (tie_include_game env cv g) (\<lambda>inc.
       if inc then
         bnd (tie_predicted_margin env cv g) (\<lambda>margin.
           tie_sum env cv ta bound (fst acc + tie_mass env ta bound margin, snd acc + 1) gs)
       else tie_sum env cv ta bound acc gs)"

text \<open>Lines 537 to 561: the average, the tie probability that a bound predicts.\<close>

definition cdf_tie_probability :: "'t env \<Rightarrow> calib \<Rightarrow> tie_args \<Rightarrow> real \<Rightarrow> error + real" where
  "cdf_tie_probability env cv ta bound =
     bnd (tie_sum env cv ta bound (0, 0) (network_game_id_list env)) (\<lambda>acc.
       if snd acc = 0 then Inl DivisionByZero else Inr (fst acc / real (snd acc)))"

record tie_state =
  cur_cdf_tie_probability :: real
  cur_cdf_bound :: real
  prev_cdf_tie_probability :: real
  prev_cdf_bound :: real

text \<open>
  Lines 532 to 563: the \<open>while\<close> loop of the search, which too has no bound on the number
  of its passes.
\<close>

partial_function (option) tie_loop ::
  "'t env \<Rightarrow> calib \<Rightarrow> tie_args \<Rightarrow> tie_state \<Rightarrow> (error + tie_state) option" where
  "tie_loop env cv ta ts =
     (case cdf_tie_probability env cv ta (cur_cdf_bound ts + tie_cdf_search_interval ta) of
        Inl e \<Rightarrow> Some (Inl e)
      | Inr p \<Rightarrow>
          (let ts' = \<lparr> cur_cdf_tie_probability = p,
                       cur_cdf_bound = cur_cdf_bound ts + tie_cdf_search_interval ta,
                       prev_cdf_tie_probability = cur_cdf_tie_probability ts,
                       prev_cdf_bound = cur_cdf_bound ts \<rparr>
           in if tie_probability ta \<le> p then Some (Inr ts') else tie_loop env cv ta ts'))"

text \<open>Line 564: the interpolation between the last two bounds.\<close>

definition interpolate :: "tie_args \<Rightarrow> tie_state \<Rightarrow> error + real" where
  "interpolate ta ts =
     (if cur_cdf_tie_probability ts - prev_cdf_tie_probability ts = 0 then Inl DivisionByZero
      else Inr (((tie_probability ta - prev_cdf_tie_probability ts)
                  / (cur_cdf_tie_probability ts - prev_cdf_tie_probability ts))
                 * tie_cdf_search_interval ta + prev_cdf_bound ts))"

text \<open>Lines 529 to 564.\<close>

definition tie_cdf_bound :: "'t env \<Rightarrow> calib \<Rightarrow> tie_args \<Rightarrow> (error + real) option" where
  "tie_cdf_bound env cv ta =
     (case tie_loop env cv ta
             \<lparr> cur_cdf_tie_probability = 0, cur_cdf_bound = 0,
               prev_cdf_tie_probability = 0, prev_cdf_bound = 0 \<rparr> of
        None \<Rightarrow> None
      | Some (Inl e) \<Rightarrow> Some (Inl e)
      | Some (Inr ts) \<Rightarrow> Some (interpolate ta ts))"

section \<open>The rules of the specification\<close>

text \<open>
  The policy weight as the specification words it: 1 for a game of the target season,
  \<open>preseason_weight\<close> if it is a preseason game; \<open>prior_season_weight\<close> for a game of
  an earlier season, \<open>prior_preseason_weight\<close> if it is a preseason game; 0 for a game of
  a later season.
\<close>

definition policy_weight :: "int \<Rightarrow> real \<Rightarrow> real \<Rightarrow> real \<Rightarrow> int \<Rightarrow> bool \<Rightarrow> real" where
  "policy_weight target pw psw ppw season preseason =
     (if season > target then 0
      else if season < target then (if preseason then ppw else psw)
      else (if preseason then pw else 1))"

text \<open>The predicted scores as the specification words them.\<close>

definition pred_home :: "real \<Rightarrow> real \<Rightarrow> bool \<Rightarrow> real \<Rightarrow> real \<Rightarrow> real" where
  "pred_home off_home def_away neutral home_adv league_mean_score =
     max (off_home + (if neutral then 0 else home_adv / 2) - def_away + league_mean_score) 0"

definition pred_away :: "real \<Rightarrow> real \<Rightarrow> bool \<Rightarrow> real \<Rightarrow> real \<Rightarrow> real" where
  "pred_away off_away def_home neutral home_adv league_mean_score =
     max (off_away - (if neutral then 0 else home_adv / 2) - def_home + league_mean_score) 0"

section \<open>Two small leagues\<close>

text \<open>
  A distribution function with two values, the one of the point mass at \<open>loc\<close>; the
  examples use it where the program calls \<open>scipy.stats.norm.cdf\<close>.
\<close>

definition step_cdf :: "real \<Rightarrow> real \<Rightarrow> real \<Rightarrow> real" where
  "step_cdf x loc scale = (if x < loc then 0 else 1)"

text \<open>
  Two teams play each other twice in the season 2024, 17 to 10 at team 0 and 14 to 13 at
  team 1. The mean score is 27/2, the standard deviation of the margins is 5, each of the
  two parallel edges has the centrality 1/2.
\<close>

definition league2 :: "nat env" where
  "league2 =
     \<lparr> teams_in_network = [0, 1], network_game_id_list = [0, 1],
       input_games_home_id = [0, 1], input_games_away_id = [1, 0],
       input_games_home_score = [17, 14], input_games_away_score = [10, 13],
       input_games_season = [2024, 2024],
       input_games_is_neutral_site = [False, False],
       input_games_is_preseason = [False, False],
       id_to_index = [0 \<mapsto> 0, 1 \<mapsto> 1], id_to_all_index = [0 \<mapsto> 0, 1 \<mapsto> 1],
       season_to_rank = 2024, preseason_weight = 1 / 2, prior_season_weight = 1 / 4,
       prior_preseason_weight = 1 / 8, use_preseason_var = True,
       game_network_edge_centrality = [(0, 1, 0) \<mapsto> 1 / 2, (0, 1, 1) \<mapsto> 1 / 2],
       network_game_score_mean = 27 / 2, network_game_margin_stdev = 5,
       iterations_before_reset = 200, iterations_before_stop = 1000,
       rating_adjustment_scale = 100,
       norm_cdf = step_cdf, std_normal = (\<lambda>k. 0) \<rparr>"

text \<open>The same league, the search giving up after one iteration without improvement.\<close>

definition league2_short :: "nat env" where
  "league2_short = league2\<lparr> iterations_before_stop := 1 \<rparr>"

text \<open>
  Normal variates that undo the first update of \<open>league2\<close>: with them the second
  iteration predicts what the first one predicted.
\<close>

definition undo_draws :: "nat \<Rightarrow> real" where
  "undo_draws k = (if k < 5 then [- 3 / 2, - 3 / 2, 3 / 2, 3 / 2, - 4] ! k else 1)"

text \<open>
  The same league again, with these variates, a reset after every iteration without
  improvement, and any function \<open>F\<close> in the place of \<open>scipy.stats.norm.cdf\<close>.
\<close>

definition league2_reset :: "(real \<Rightarrow> real \<Rightarrow> real \<Rightarrow> real) \<Rightarrow> nat env" where
  "league2_reset F =
     league2\<lparr> iterations_before_reset := 1, norm_cdf := F, std_normal := undo_draws \<rparr>"


text \<open>
  The calibration of \<open>league2\<close> with aggregated ratings in which team 0 is the
  stronger one. No game is unplayed, so \<open>cur_game_season\<close> holds the season of the last
  played game.
\<close>

definition league2_calib :: calib where
  "league2_calib =
     \<lparr> input_games_home_listid = [0, 1], input_games_away_listid = [1, 0],
       teams_in_network_reverse = [Some 0, Some 1],
       cur_game_season = season_left_by_loops [2024, 2024] [],
       median_team_off_ratings = [1, - 1], median_team_def_ratings = [2, - 2],
       median_team_ratings = [3, - 3], median_home_advantage = 2 \<rparr>"

text \<open>
  The same two games, the first of them played a season earlier, and games of earlier
  seasons given the weight 0.
\<close>

definition league2_prior :: "nat env" where
  "league2_prior = league2\<lparr> input_games_season := [2023, 2024], prior_season_weight := 0 \<rparr>"

definition league2_prior_calib :: calib where
  "league2_prior_calib =
     league2_calib\<lparr> cur_game_season := season_left_by_loops [2023, 2024] [] \<rparr>"

section \<open>Invariants of the search\<close>

text \<open>The six lists of ratings have one entry for each team of the network.\<close>

definition rated :: "nat \<Rightarrow> state \<Rightarrow> bool" where
  "rated n s \<longleftrightarrow>
     length (cur_team_off_ratings s) = n \<and> length (cur_team_def_ratings s) = n
     \<and> length (cur_team_ratings s) = n
     \<and> length (best_team_off_ratings s) = n \<and> length (best_team_def_ratings s) = n
     \<and> length (best_team_ratings s) = n"

text \<open>The current and the best offense and defense ratings add up to zero.\<close>

definition zero_sums :: "state \<Rightarrow> bool" where
  "zero_sums s \<longleftrightarrow>
     sum_list (cur_team_off_ratings s) = 0 \<and> sum_list (cur_team_def_ratings s) = 0
     \<and> sum_list (best_team_off_ratings s) = 0 \<and> sum_list (best_team_def_ratings s) = 0"





section \<open>The tie probability as an average\<close>

text \<open>
  The margins that the aggregated ratings predict for the games that the loop of line 539
  includes, in the order of the loop, and the average over these margins of the
  probability between \<open>- bound\<close> and \<open>bound\<close>: the loop computes this average, as
  \<open>cdf_tie_probability_average\<close> below shows.
\<close>

fun tie_margins :: "'t env \<Rightarrow> calib \<Rightarrow> nat list \<Rightarrow> error + real list" where
  "tie_margins env cv [] = Inr []"
| "tie_margins env cv (g # gs) =
     bnd (tie_include_game env cv g) (\<lambda>inc.
       if inc then
         bnd (tie_predicted_margin env cv g) (\<lambda>margin.
         bnd (tie_margins env cv gs) (\<lambda>margins. Inr (margin # margins)))
       else tie_margins env cv gs)"

definition tie_average :: "'t env \<Rightarrow> tie_args \<Rightarrow> real list \<Rightarrow> real \<Rightarrow> real" where
  "tie_average env ta margins bound =
     sum_list (map (tie_mass env ta bound) margins) / real (length margins)"

section \<open>A league of ties\<close>

text \<open>
  The distribution function of Student's t distribution with one degree of freedom, the
  Cauchy distribution; the example uses it where the program calls \<open>scipy.stats.t.cdf\<close>
  with \<open>df = 1\<close>.
\<close>

definition student1_cdf :: "real \<Rightarrow> real \<Rightarrow> real \<Rightarrow> real \<Rightarrow> real" where
  "student1_cdf x df loc scale = 1 / 2 + arctan ((x - loc) / scale) / pi"

text \<open>
  The two teams of \<open>league2\<close> play 10 to 10 twice. The aggregated ratings predict the
  margins 1/100 and -1/100, so the standard deviation of the errors of the predicted
  margins is 1/100. A tie probability of 1/10 is asked for, with a step of 1/2.
\<close>

definition ties :: "nat env" where
  "ties = league2\<lparr> input_games_home_score := [10, 10], input_games_away_score := [10, 10],
                    network_game_score_mean := 10, network_game_margin_stdev := 0 \<rparr>"

definition ties_calib :: calib where
  "ties_calib =
     \<lparr> input_games_home_listid = [0, 1], input_games_away_listid = [1, 0],
       teams_in_network_reverse = [Some 0, Some 1],
       cur_game_season = season_left_by_loops [2024, 2024] [],
       median_team_off_ratings = [1 / 400, - 1 / 400],
       median_team_def_ratings = [1 / 400, - 1 / 400],
       median_team_ratings = [1 / 200, - 1 / 200], median_home_advantage = 0 \<rparr>"

definition ties_args :: tie_args where
  "ties_args =
     \<lparr> use_normal = False, prediction_error_df = 1, prediction_error_stdev = 1 / 100,
       tie_probability = 1 / 10, tie_cdf_search_interval = 1 / 2, t_cdf = student1_cdf \<rparr>"

text \<open>The bound that line 564 computes in this example.\<close>

definition ties_bound :: real where
  "ties_bound = (1 / 10) / ((arctan 49 + arctan 51) / pi) * (1 / 2)"

section \<open>Properties\<close>

subsection \<open>Reading lists and dictionaries\<close>

lemma bnd_Inr [simp]: "bnd (Inr x) f = f x"
  by (simp add: bnd_def)

lemma bnd_Inl [simp]: "bnd (Inl e) f = Inl e"
  by (simp add: bnd_def)

lemma bnd_eq_Inr: "bnd m f = Inr y \<longleftrightarrow> (\<exists>x. m = Inr x \<and> f x = Inr y)"
  by (cases m) simp_all

lemma item_eq_Inr: "item xs i = Inr x \<longleftrightarrow> i < length xs \<and> x = xs ! i"
  by (auto simp: item_def)

lemma lookup_eq_Inr: "lookup d k = Inr v \<longleftrightarrow> d k = Some v"
  by (simp add: lookup_def split: option.splits)


subsection \<open>The loop over the games\<close>

lemma cur_game_cong:
  "cur_team_off_ratings s = cur_team_off_ratings s' \<Longrightarrow>
   cur_team_def_ratings s = cur_team_def_ratings s' \<Longrightarrow>
   cur_home_advantage s = cur_home_advantage s' \<Longrightarrow>
   cur_game env s g = cur_game env s' g"
  by (simp add: cur_game_def)

lemma store_first_frame:
  assumes "store_first s gm = Inr s'"
  shows "s' = s\<lparr> total_team_weight := total_team_weight s',
                  total_notneutral_weight := total_notneutral_weight s',
                  home_actual_margin_list := home_actual_margin_list s',
                  home_actual_off_score_list := home_actual_off_score_list s',
                  home_actual_def_score_list := home_actual_def_score_list s',
                  gt_game_weight_list := gt_game_weight_list s' \<rparr>"
  using assms by (auto simp: store_first_def bnd_eq_Inr split: if_splits)

lemma store_first_weights:
  assumes "store_first s gm = Inr s'"
  shows "gt_game_weight_list s' =
           (if first_iteration s then gt_game_weight_list s @ [gt_weight gm]
            else gt_game_weight_list s)"
  using assms by (auto simp: store_first_def bnd_eq_Inr split: if_splits)

lemma store_errors_frame:
  assumes "store_errors s gm = Inr s'"
  shows "s' = s\<lparr> home_predicted_margin_list := home_predicted_margin_list s @ [predicted_margin gm],
                  home_predicted_off_score_list :=
                    home_predicted_off_score_list s @ [predicted_off_score gm],
                  home_predicted_def_score_list :=
                    home_predicted_def_score_list s @ [predicted_def_score gm],
                  total_team_off_margin_error_weight := total_team_off_margin_error_weight s',
                  total_team_def_margin_error_weight := total_team_def_margin_error_weight s',
                  total_home_margin_error_weight := total_home_margin_error_weight s' \<rparr>"
  using assms by (auto simp: store_errors_def bnd_eq_Inr Let_def)

lemma one_game_frame:
  assumes s1: "store_first s gm = Inr s1" and s2: "store_errors s1 gm = Inr s2"
  shows "cur_team_off_ratings s2 = cur_team_off_ratings s"
    and "cur_team_def_ratings s2 = cur_team_def_ratings s"
    and "cur_home_advantage s2 = cur_home_advantage s"
    and "first_iteration s2 = first_iteration s"
    and "home_predicted_off_score_list s2 =
           home_predicted_off_score_list s @ [predicted_off_score gm]"
    and "home_predicted_def_score_list s2 =
           home_predicted_def_score_list s @ [predicted_def_score gm]"
    and "home_predicted_margin_list s2 = home_predicted_margin_list s @ [predicted_margin gm]"
    and "gt_game_weight_list s2 =
           (if first_iteration s then gt_game_weight_list s @ [gt_weight gm]
            else gt_game_weight_list s)"
proof -
  note f1 = store_first_frame [OF s1] and f2 = store_errors_frame [OF s2]
  show "cur_team_off_ratings s2 = cur_team_off_ratings s"
    by (subst f2, subst f1) simp
  show "cur_team_def_ratings s2 = cur_team_def_ratings s"
    by (subst f2, subst f1) simp
  show "cur_home_advantage s2 = cur_home_advantage s"
    by (subst f2, subst f1) simp
  show "first_iteration s2 = first_iteration s"
    by (subst f2, subst f1) simp
  have p: "home_predicted_off_score_list s1 = home_predicted_off_score_list s"
    "home_predicted_def_score_list s1 = home_predicted_def_score_list s"
    "home_predicted_margin_list s1 = home_predicted_margin_list s"
    by (subst f1, simp)+
  show "home_predicted_off_score_list s2 =
           home_predicted_off_score_list s @ [predicted_off_score gm]"
    by (subst f2) (simp add: p)
  show "home_predicted_def_score_list s2 =
           home_predicted_def_score_list s @ [predicted_def_score gm]"
    by (subst f2) (simp add: p)
  show "home_predicted_margin_list s2 = home_predicted_margin_list s @ [predicted_margin gm]"
    by (subst f2) (simp add: p)
  have "gt_game_weight_list s2 = gt_game_weight_list s1"
    by (subst f2) simp
  then show "gt_game_weight_list s2 =
           (if first_iteration s then gt_game_weight_list s @ [gt_weight gm]
            else gt_game_weight_list s)"
    by (simp add: store_first_weights [OF s1])
qed

lemma games_loop_lists:
  "games_loop env s gs = Inr s' \<Longrightarrow>
   \<exists>gms. list_all2 (\<lambda>g gm. cur_game env s g = Inr gm) gs gms
     \<and> home_predicted_off_score_list s' =
         home_predicted_off_score_list s @ map predicted_off_score gms
     \<and> home_predicted_def_score_list s' =
         home_predicted_def_score_list s @ map predicted_def_score gms
     \<and> home_predicted_margin_list s' =
         home_predicted_margin_list s @ map predicted_margin gms
     \<and> gt_game_weight_list s' =
         (if first_iteration s then gt_game_weight_list s @ map gt_weight gms
          else gt_game_weight_list s)
     \<and> cur_team_off_ratings s' = cur_team_off_ratings s
     \<and> cur_team_def_ratings s' = cur_team_def_ratings s
     \<and> cur_home_advantage s' = cur_home_advantage s
     \<and> first_iteration s' = first_iteration s"
proof (induction gs arbitrary: s)
  case Nil
  then show ?case by simp
next
  case (Cons g gs)
  from Cons.prems obtain gm s1 s2 where
    gm: "cur_game env s g = Inr gm" and s1: "store_first s gm = Inr s1"
    and s2: "store_errors s1 gm = Inr s2" and rest: "games_loop env s2 gs = Inr s'"
    by (auto simp: bnd_eq_Inr)
  note one = one_game_frame [OF s1 s2]
  from Cons.IH [OF rest] obtain gms where
    all: "list_all2 (\<lambda>g gm. cur_game env s2 g = Inr gm) gs gms"
    and lists: "home_predicted_off_score_list s' =
        home_predicted_off_score_list s2 @ map predicted_off_score gms"
      "home_predicted_def_score_list s' =
        home_predicted_def_score_list s2 @ map predicted_def_score gms"
      "home_predicted_margin_list s' =
        home_predicted_margin_list s2 @ map predicted_margin gms"
      "gt_game_weight_list s' =
         (if first_iteration s2 then gt_game_weight_list s2 @ map gt_weight gms
          else gt_game_weight_list s2)"
    and keep: "cur_team_off_ratings s' = cur_team_off_ratings s2"
      "cur_team_def_ratings s' = cur_team_def_ratings s2"
      "cur_home_advantage s' = cur_home_advantage s2"
      "first_iteration s' = first_iteration s2"
    by blast
  have same: "cur_game env s2 = cur_game env s"
    by (rule ext, rule cur_game_cong) (simp_all add: one)
  have "list_all2 (\<lambda>g gm. cur_game env s g = Inr gm) (g # gs) (gm # gms)"
    using all gm by (simp add: same)
  moreover have "home_predicted_off_score_list s' =
      home_predicted_off_score_list s @ map predicted_off_score (gm # gms)"
    "home_predicted_def_score_list s' =
      home_predicted_def_score_list s @ map predicted_def_score (gm # gms)"
    "home_predicted_margin_list s' =
      home_predicted_margin_list s @ map predicted_margin (gm # gms)"
    "gt_game_weight_list s' =
         (if first_iteration s then gt_game_weight_list s @ map gt_weight (gm # gms)
          else gt_game_weight_list s)"
    by (simp_all add: lists one)
  moreover have "cur_team_off_ratings s' = cur_team_off_ratings s"
      "cur_team_def_ratings s' = cur_team_def_ratings s"
      "cur_home_advantage s' = cur_home_advantage s"
      "first_iteration s' = first_iteration s"
    by (simp_all add: keep one)
  ultimately show ?case by blast
qed

subsection \<open>What the rest of an iteration leaves alone\<close>

lemma track_best_frame:
  assumes "track_best env s err = Inr s'"
  shows "s' = s\<lparr> best_team_off_ratings := best_team_off_ratings s',
                  best_team_def_ratings := best_team_def_ratings s',
                  best_team_ratings := best_team_ratings s',
                  best_home_advantage := best_home_advantage s',
                  best_abs_total_error := best_abs_total_error s',
                  iterations_since_last_update := iterations_since_last_update s',
                  cur_team_off_ratings := cur_team_off_ratings s',
                  cur_team_def_ratings := cur_team_def_ratings s',
                  cur_team_ratings := cur_team_ratings s',
                  cur_home_advantage := cur_home_advantage s' \<rparr>"
  using assms by (auto simp: track_best_def bnd_eq_Inr Let_def split: if_splits)

lemma update_teams_frame:
  "update_teams env s is = Inr s' \<Longrightarrow>
   \<exists>x y n. s' = s\<lparr> cur_team_off_ratings := x, cur_team_def_ratings := y, draws_used := n \<rparr>"
proof (induction "is" arbitrary: s)
  case Nil
  then have "s' = s\<lparr> cur_team_off_ratings := cur_team_off_ratings s,
     cur_team_def_ratings := cur_team_def_ratings s, draws_used := draws_used s \<rparr>"
    by simp
  then show ?case by blast
next
  case (Cons i "is")
  from Cons.prems obtain s1 x y n where
    s1: "update_teams env s1 is = Inr s'"
    and s1_eq: "s1 = s\<lparr> cur_team_off_ratings := x, cur_team_def_ratings := y,
                          draws_used := n \<rparr>"
    by (auto simp: bnd_eq_Inr split: if_splits)
  from Cons.IH [OF s1] obtain x' y' n' where
    "s' = s1\<lparr> cur_team_off_ratings := x', cur_team_def_ratings := y', draws_used := n' \<rparr>"
    by blast
  then have "s' = s\<lparr> cur_team_off_ratings := x', cur_team_def_ratings := y',
                       draws_used := n' \<rparr>"
    by (simp add: s1_eq)
  then show ?case by blast
qed

lemma update_ratings_frame:
  assumes "update_ratings env s = Inr s'"
  shows "\<exists>x y z a n. s' = s\<lparr> cur_team_off_ratings := x, cur_team_def_ratings := y,
                               cur_team_ratings := z, cur_home_advantage := a,
                               draws_used := n \<rparr>"
proof -
  from assms obtain s1 s2 x y z where
    s1: "update_teams env s [0 ..< length (cur_team_ratings s)] = Inr s1"
    and s2: "update_home_advantage env s1 = Inr s2"
    and s': "s' = s2\<lparr> cur_team_off_ratings := x, cur_team_def_ratings := y,
                        cur_team_ratings := z \<rparr>"
    by (auto simp: update_ratings_def bnd_eq_Inr Let_def)
  from s2 obtain a n where s2_eq: "s2 = s1\<lparr> cur_home_advantage := a, draws_used := n \<rparr>"
    by (auto simp: update_home_advantage_def split: if_splits)
  from update_teams_frame [OF s1] obtain x1 y1 n1 where
    s1_eq: "s1 = s\<lparr> cur_team_off_ratings := x1, cur_team_def_ratings := y1,
                      draws_used := n1 \<rparr>"
    by blast
  have "s' = s\<lparr> cur_team_off_ratings := x, cur_team_def_ratings := y,
                 cur_team_ratings := z, cur_home_advantage := a, draws_used := n \<rparr>"
    by (simp add: s' s2_eq s1_eq)
  then show ?thesis by blast
qed

subsection \<open>One game\<close>

lemma cur_game_weight_policy:
  assumes "cur_game_weight env g season = Inr w"
  shows "w = policy_weight (season_to_rank env) (preseason_weight env)
               (prior_season_weight env) (prior_preseason_weight env) season
               (use_preseason_var env \<and> input_games_is_preseason env ! g)"
  using assms
  by (auto simp: cur_game_weight_def policy_weight_def bnd_eq_Inr item_eq_Inr
           split: if_splits)

lemma cur_game_gt_weight_Inr:
  assumes "cur_game_gt_weight env w ha aa = Inr gw"
  shows "\<exists>c. game_network_edge_centrality env (min ha aa, max ha aa, 0) = Some c
             \<and> gw = w / ln (1 / c)"
  using assms
  by (auto simp: cur_game_gt_weight_def bnd_eq_Inr lookup_eq_Inr split: if_splits)

lemma cur_game_gt_weight_defined:
  assumes "game_network_edge_centrality env (min ha aa, max ha aa, 0) = Some c"
    and "0 < c" and "c < 1"
  shows "cur_game_gt_weight env w ha aa = Inr (w / ln (1 / c))"
proof -
  from assms have "1 < 1 / c" by simp
  then have "0 < ln (1 / c)" by (rule ln_gt_zero)
  with assms show ?thesis
    by (simp add: cur_game_gt_weight_def lookup_def)
qed

lemma bndE:
  assumes "bnd m f = Inr y"
  obtains x where "m = Inr x" and "f x = Inr y"
  using assms by (auto simp: bnd_eq_Inr)

lemma cur_game_Inr:
  assumes "cur_game env s g = Inr gm"
  shows "\<exists>h a ha aa w.
           id_to_index env (input_games_home_id env ! g) = Some h
         \<and> id_to_index env (input_games_away_id env ! g) = Some a
         \<and> id_to_all_index env (input_games_home_id env ! g) = Some ha
         \<and> id_to_all_index env (input_games_away_id env ! g) = Some aa
         \<and> cur_game_weight env g (input_games_season env ! g) = Inr w
         \<and> cur_game_gt_weight env w ha aa = Inr (gt_weight gm)
         \<and> h < length (cur_team_off_ratings s) \<and> a < length (cur_team_def_ratings s)
         \<and> a < length (cur_team_off_ratings s) \<and> h < length (cur_team_def_ratings s)
         \<and> g < length (input_games_is_neutral_site env)
         \<and> homeidx gm = h \<and> awayidx gm = a
         \<and> predicted_off_score gm =
               max (cur_team_off_ratings s ! h
                    + home_term (input_games_is_neutral_site env ! g) (cur_home_advantage s)
                    - cur_team_def_ratings s ! a + network_game_score_mean env) 0
         \<and> predicted_def_score gm =
               max (cur_team_off_ratings s ! a
                    - home_term (input_games_is_neutral_site env ! g) (cur_home_advantage s)
                    - cur_team_def_ratings s ! h + network_game_score_mean env) 0
         \<and> predicted_margin gm = predicted_off_score gm - predicted_def_score gm"
  using assms unfolding cur_game_def
  apply (elim bndE)
  apply (clarsimp simp: item_eq_Inr lookup_eq_Inr Let_def)
  done

subsection \<open>One iteration\<close>

lemma iteration_Inr:
  assumes "iteration env s = Inr s'"
  obtains s1 s2 s3 where
    "games_loop env (start_iteration env s) (network_game_id_list env) = Inr s1"
    and "track_best env s1 (abs_total_error env s1) = Inr s2"
    and "if iterations_since_last_update s2 < iterations_before_stop env
         then update_ratings env s2 = Inr s3
         else s3 = s2\<lparr> terminate_search := True \<rparr>"
    and "s' = s3\<lparr> first_iteration := False \<rparr>"
  using assms unfolding iteration_def
  by (elim bndE) (auto split: if_splits)

lemma start_iteration_fields:
  "cur_team_off_ratings (start_iteration env s) = cur_team_off_ratings s"
  "cur_team_def_ratings (start_iteration env s) = cur_team_def_ratings s"
  "cur_home_advantage (start_iteration env s) = cur_home_advantage s"
  "first_iteration (start_iteration env s) = first_iteration s"
  "home_predicted_off_score_list (start_iteration env s) = []"
  "home_predicted_def_score_list (start_iteration env s) = []"
  "home_predicted_margin_list (start_iteration env s) = []"
  "gt_game_weight_list (start_iteration env s) =
     (if first_iteration s then [] else gt_game_weight_list s)"
  by (simp_all add: start_iteration_def Let_def)

lemma iteration_lists:
  assumes "iteration env s = Inr s'"
  shows "\<exists>gms. list_all2 (\<lambda>g gm. cur_game env s g = Inr gm) (network_game_id_list env) gms
     \<and> home_predicted_off_score_list s' = map predicted_off_score gms
     \<and> home_predicted_def_score_list s' = map predicted_def_score gms
     \<and> home_predicted_margin_list s' = map predicted_margin gms
     \<and> gt_game_weight_list s' =
         (if first_iteration s then map gt_weight gms else gt_game_weight_list s)
     \<and> \<not> first_iteration s'"
proof -
  from assms obtain s1 s2 s3 where
    s1: "games_loop env (start_iteration env s) (network_game_id_list env) = Inr s1"
    and s2: "track_best env s1 (abs_total_error env s1) = Inr s2"
    and s3: "if iterations_since_last_update s2 < iterations_before_stop env
         then update_ratings env s2 = Inr s3
         else s3 = s2\<lparr> terminate_search := True \<rparr>"
    and s': "s' = s3\<lparr> first_iteration := False \<rparr>"
    by (rule iteration_Inr)
  from games_loop_lists [OF s1] obtain gms where
    all: "list_all2 (\<lambda>g gm. cur_game env (start_iteration env s) g = Inr gm)
            (network_game_id_list env) gms"
    and l1: "home_predicted_off_score_list s1 = map predicted_off_score gms"
      "home_predicted_def_score_list s1 = map predicted_def_score gms"
      "home_predicted_margin_list s1 = map predicted_margin gms"
      "gt_game_weight_list s1 =
         (if first_iteration s then map gt_weight gms else gt_game_weight_list s)"
    by (auto simp: start_iteration_fields)
  have same: "cur_game env (start_iteration env s) = cur_game env s"
    by (rule ext, rule cur_game_cong) (simp_all add: start_iteration_fields)
  have l2: "home_predicted_off_score_list s2 = home_predicted_off_score_list s1"
    "home_predicted_def_score_list s2 = home_predicted_def_score_list s1"
    "home_predicted_margin_list s2 = home_predicted_margin_list s1"
    "gt_game_weight_list s2 = gt_game_weight_list s1"
    by (subst track_best_frame [OF s2], simp)+
  have l3: "home_predicted_off_score_list s3 = home_predicted_off_score_list s2
    \<and> home_predicted_def_score_list s3 = home_predicted_def_score_list s2
    \<and> home_predicted_margin_list s3 = home_predicted_margin_list s2
    \<and> gt_game_weight_list s3 = gt_game_weight_list s2"
  proof (cases "iterations_since_last_update s2 < iterations_before_stop env")
    case True
    with s3 have "update_ratings env s2 = Inr s3" by simp
    from update_ratings_frame [OF this] show ?thesis by auto
  next
    case False
    with s3 show ?thesis by simp
  qed
  show ?thesis
    using all l1 l2 l3 by (intro exI [of _ gms]) (simp add: same s')
qed

text \<open>After the first iteration the list of weights stays as it is.\<close>

lemma iterations_weights_kept:
  "iterations env k s = Inr s' \<Longrightarrow> \<not> first_iteration s \<Longrightarrow>
   gt_game_weight_list s' = gt_game_weight_list s \<and> \<not> first_iteration s'"
proof (induction k arbitrary: s)
  case 0
  then show ?case by simp
next
  case (Suc k)
  show ?case
  proof (cases "terminate_search s")
    case True
    with Suc.prems show ?thesis by simp
  next
    case False
    with Suc.prems obtain s1 where
      s1: "iteration env s = Inr s1" and rest: "iterations env k s1 = Inr s'"
      by (auto simp: bnd_eq_Inr)
    from iteration_lists [OF s1] Suc.prems(2)
    have "gt_game_weight_list s1 = gt_game_weight_list s" "\<not> first_iteration s1"
      by auto
    with Suc.IH [OF rest] show ?thesis by simp
  qed
qed

lemma initial_state_fields:
  "first_iteration (initial_state env)" "\<not> terminate_search (initial_state env)"
  by (simp_all add: initial_state_def Let_def)

text \<open>The weight that the search holds for the \<open>k\<close>-th game of the network.\<close>

lemma weight_entry:
  assumes run: "iterations env (Suc n) (initial_state env) = Inr s'"
    and k: "k < length (network_game_id_list env)"
  shows "\<exists>ha aa c.
           id_to_all_index env (input_games_home_id env ! (network_game_id_list env ! k)) = Some ha
         \<and> id_to_all_index env (input_games_away_id env ! (network_game_id_list env ! k)) = Some aa
         \<and> game_network_edge_centrality env (min ha aa, max ha aa, 0) = Some c
         \<and> gt_game_weight_list s' ! k =
             policy_weight (season_to_rank env) (preseason_weight env)
               (prior_season_weight env) (prior_preseason_weight env)
               (input_games_season env ! (network_game_id_list env ! k))
               (use_preseason_var env
                \<and> input_games_is_preseason env ! (network_game_id_list env ! k))
             / ln (1 / c)"
proof -
  let ?s0 = "initial_state env" and ?g = "network_game_id_list env ! k"
  from run obtain s1 where
    s1: "iteration env ?s0 = Inr s1" and rest: "iterations env n s1 = Inr s'"
    by (auto simp: bnd_eq_Inr initial_state_fields)
  from iteration_lists [OF s1] obtain gms where
    all: "list_all2 (\<lambda>g gm. cur_game env ?s0 g = Inr gm) (network_game_id_list env) gms"
    and w1: "gt_game_weight_list s1 = map gt_weight gms" and nf: "\<not> first_iteration s1"
    by (auto simp: initial_state_fields)
  from iterations_weights_kept [OF rest nf] w1
  have w: "gt_game_weight_list s' = map gt_weight gms" by simp
  from all k have len: "k < length gms" and gm: "cur_game env ?s0 ?g = Inr (gms ! k)"
    by (auto simp: list_all2_conv_all_nth)
  from cur_game_Inr [OF gm] obtain ha aa w0 where
    ha: "id_to_all_index env (input_games_home_id env ! ?g) = Some ha"
    and aa: "id_to_all_index env (input_games_away_id env ! ?g) = Some aa"
    and w0: "cur_game_weight env ?g (input_games_season env ! ?g) = Inr w0"
    and gw: "cur_game_gt_weight env w0 ha aa = Inr (gt_weight (gms ! k))"
    by blast
  from cur_game_gt_weight_Inr [OF gw] obtain c where
    c: "game_network_edge_centrality env (min ha aa, max ha aa, 0) = Some c"
    and val: "gt_weight (gms ! k) = w0 / ln (1 / c)"
    by blast
  from w len have "gt_game_weight_list s' ! k = gt_weight (gms ! k)" by simp
  with val cur_game_weight_policy [OF w0] ha aa c show ?thesis by simp
qed

lemmas model_defs = iteration_def start_iteration_def initial_state_def cur_game_def
  store_first_def store_errors_def item_def lookup_def add_at_def cur_game_weight_def
  cur_game_gt_weight_def home_term_def track_best_def update_best_stats_def
  update_ratings_def update_home_advantage_def normal_def center_def mean_def
  abs_total_error_def cdf_error_def step_cdf_def upt_rec Let_def

lemma league2_first_iteration:
  "\<exists>s'. iteration league2 (initial_state league2) = Inr s'"
  by (simp add: league2_def model_defs)



lemma league2_one_iteration:
  "\<exists>s'. iterations league2 (Suc 0) (initial_state league2) = Inr s'"
  using league2_first_iteration by (auto simp: initial_state_fields)

text \<open>
  C3. The weight that the search uses for a game of the network is the policy weight of
  the game divided by \<open>ln (1 / centrality)\<close>, the centrality being the one stored under the
  key \<open>(min, max, 0)\<close> of the all-team indexes of the two teams, when that centrality lies
  strictly between 0 and 1. The policy weight is 1 for a game of the target season that is
  no preseason game, \<open>preseason_weight\<close> for a preseason game of the target season,
  \<open>prior_season_weight\<close> or, for a preseason game, \<open>prior_preseason_weight\<close> for a game of
  an earlier season, and 0 for a game of a later season; a game counts as a preseason game
  when the preseason flags are in use and the game has the flag.
\<close>

theorem final_weight:
  assumes "iterations env (Suc n) (initial_state env) = Inr s'"
    and "k < length (network_game_id_list env)"
    and "id_to_all_index env (input_games_home_id env ! (network_game_id_list env ! k)) = Some ha"
    and "id_to_all_index env (input_games_away_id env ! (network_game_id_list env ! k)) = Some aa"
    and "game_network_edge_centrality env (min ha aa, max ha aa, 0) = Some c"
    and "0 < c" and "c < 1"
  shows "gt_game_weight_list s' ! k =
           policy_weight (season_to_rank env) (preseason_weight env)
             (prior_season_weight env) (prior_preseason_weight env)
             (input_games_season env ! (network_game_id_list env ! k))
             (use_preseason_var env
              \<and> input_games_is_preseason env ! (network_game_id_list env ! k))
           / ln (1 / c)
         \<and> 0 < ln (1 / c)
         \<and> cur_game_gt_weight env
             (policy_weight (season_to_rank env) (preseason_weight env)
               (prior_season_weight env) (prior_preseason_weight env)
               (input_games_season env ! (network_game_id_list env ! k))
               (use_preseason_var env
                \<and> input_games_is_preseason env ! (network_game_id_list env ! k)))
             ha aa
           = Inr (gt_game_weight_list s' ! k)"
proof -
  from weight_entry [OF assms(1,2)] assms(3,4,5)
  have w: "gt_game_weight_list s' ! k =
           policy_weight (season_to_rank env) (preseason_weight env)
             (prior_season_weight env) (prior_preseason_weight env)
             (input_games_season env ! (network_game_id_list env ! k))
             (use_preseason_var env
              \<and> input_games_is_preseason env ! (network_game_id_list env ! k))
           / ln (1 / c)"
    by auto
  from assms(6,7) have "1 < 1 / c" by simp
  then have pos: "0 < ln (1 / c)" by (rule ln_gt_zero)
  from w pos cur_game_gt_weight_defined [OF assms(5,6,7)] show ?thesis
    by simp
qed

theorem final_weight_witness:
  "\<exists>s'. iterations league2 (Suc 0) (initial_state league2) = Inr s'
      \<and> gt_game_weight_list s' ! 0 = 1 / ln 2"
proof -
  from league2_one_iteration obtain s' where
    run: "iterations league2 (Suc 0) (initial_state league2) = Inr s'" by blast
  have k: "0 < length (network_game_id_list league2)"
    and ha: "id_to_all_index league2
          (input_games_home_id league2 ! (network_game_id_list league2 ! 0)) = Some 0"
    and aa: "id_to_all_index league2
          (input_games_away_id league2 ! (network_game_id_list league2 ! 0)) = Some 1"
    and c: "game_network_edge_centrality league2 (min 0 1, max 0 1, 0) = Some (1 / 2)"
    by (simp_all add: league2_def)
  have c0: "(0::real) < 1 / 2" and c1: "(1::real) / 2 < 1" by simp_all
  from final_weight [OF run k ha aa c c0 c1]
  have "gt_game_weight_list s' ! 0 = 1 / ln 2"
    by (simp add: league2_def policy_weight_def)
  with run show ?thesis by blast
qed

text \<open>
  C10. Two games of the network between the same two teams, whichever of them is at home,
  with equal policy weights have equal weights in the search: both are the policy weight
  divided by \<open>ln (1 / c)\<close> for the one centrality \<open>c\<close> stored under the key
  \<open>(min, max, 0)\<close> of the all-team indexes of the two teams.
\<close>

theorem repeat_matchups_equal_weight:
  assumes "iterations env (Suc n) (initial_state env) = Inr s'"
    and "k < length (network_game_id_list env)"
    and "k' < length (network_game_id_list env)"
    and "{input_games_home_id env ! (network_game_id_list env ! k),
          input_games_away_id env ! (network_game_id_list env ! k)}
       = {input_games_home_id env ! (network_game_id_list env ! k'),
          input_games_away_id env ! (network_game_id_list env ! k')}"
    and "policy_weight (season_to_rank env) (preseason_weight env)
             (prior_season_weight env) (prior_preseason_weight env)
             (input_games_season env ! (network_game_id_list env ! k))
             (use_preseason_var env
              \<and> input_games_is_preseason env ! (network_game_id_list env ! k))
       = policy_weight (season_to_rank env) (preseason_weight env)
             (prior_season_weight env) (prior_preseason_weight env)
             (input_games_season env ! (network_game_id_list env ! k'))
             (use_preseason_var env
              \<and> input_games_is_preseason env ! (network_game_id_list env ! k'))"
  shows "\<exists>ha aa c.
           id_to_all_index env (input_games_home_id env ! (network_game_id_list env ! k)) = Some ha
         \<and> id_to_all_index env (input_games_away_id env ! (network_game_id_list env ! k)) = Some aa
         \<and> game_network_edge_centrality env (min ha aa, max ha aa, 0) = Some c
         \<and> gt_game_weight_list s' ! k =
             policy_weight (season_to_rank env) (preseason_weight env)
               (prior_season_weight env) (prior_preseason_weight env)
               (input_games_season env ! (network_game_id_list env ! k))
               (use_preseason_var env
                \<and> input_games_is_preseason env ! (network_game_id_list env ! k))
             / ln (1 / c)
         \<and> gt_game_weight_list s' ! k' = gt_game_weight_list s' ! k"
proof -
  let ?h = "input_games_home_id env ! (network_game_id_list env ! k)"
  let ?a = "input_games_away_id env ! (network_game_id_list env ! k)"
  let ?h' = "input_games_home_id env ! (network_game_id_list env ! k')"
  let ?a' = "input_games_away_id env ! (network_game_id_list env ! k')"
  let ?p = "policy_weight (season_to_rank env) (preseason_weight env)
               (prior_season_weight env) (prior_preseason_weight env)
               (input_games_season env ! (network_game_id_list env ! k))
               (use_preseason_var env
                \<and> input_games_is_preseason env ! (network_game_id_list env ! k))"
  from weight_entry [OF assms(1,2)] obtain ha aa c where
    ha: "id_to_all_index env ?h = Some ha" and aa: "id_to_all_index env ?a = Some aa"
    and c: "game_network_edge_centrality env (min ha aa, max ha aa, 0) = Some c"
    and w: "gt_game_weight_list s' ! k = ?p / ln (1 / c)"
    by blast
  from weight_entry [OF assms(1,3)] assms(5) obtain ha' aa' c' where
    ha': "id_to_all_index env ?h' = Some ha'" and aa': "id_to_all_index env ?a' = Some aa'"
    and c': "game_network_edge_centrality env (min ha' aa', max ha' aa', 0) = Some c'"
    and w': "gt_game_weight_list s' ! k' = ?p / ln (1 / c')"
    by auto
  from assms(4) have "(?h = ?h' \<and> ?a = ?a') \<or> (?h = ?a' \<and> ?a = ?h')"
    by (simp add: doubleton_eq_iff)
  with ha aa ha' aa' have "(ha = ha' \<and> aa = aa') \<or> (ha = aa' \<and> aa = ha')"
    by auto
  then have "min ha aa = min ha' aa'" "max ha aa = max ha' aa'"
    by auto
  with c c' have "c' = c" by simp
  with w w' ha aa c show ?thesis by simp
qed

theorem repeat_matchups_equal_weight_witness:
  "\<exists>s'. iterations league2 (Suc 0) (initial_state league2) = Inr s'
      \<and> gt_game_weight_list s' ! 1 = gt_game_weight_list s' ! 0"
proof -
  from league2_one_iteration obtain s' where
    run: "iterations league2 (Suc 0) (initial_state league2) = Inr s'" by blast
  have k: "0 < length (network_game_id_list league2)"
    and k': "1 < length (network_game_id_list league2)"
    by (simp_all add: league2_def)
  have pair: "{input_games_home_id league2 ! (network_game_id_list league2 ! 0),
          input_games_away_id league2 ! (network_game_id_list league2 ! 0)}
       = {input_games_home_id league2 ! (network_game_id_list league2 ! 1),
          input_games_away_id league2 ! (network_game_id_list league2 ! 1)}"
    by (auto simp: league2_def)
  have pol: "policy_weight (season_to_rank league2) (preseason_weight league2)
             (prior_season_weight league2) (prior_preseason_weight league2)
             (input_games_season league2 ! (network_game_id_list league2 ! 0))
             (use_preseason_var league2
              \<and> input_games_is_preseason league2 ! (network_game_id_list league2 ! 0))
       = policy_weight (season_to_rank league2) (preseason_weight league2)
             (prior_season_weight league2) (prior_preseason_weight league2)
             (input_games_season league2 ! (network_game_id_list league2 ! 1))
             (use_preseason_var league2
              \<and> input_games_is_preseason league2 ! (network_game_id_list league2 ! 1))"
    by (simp add: league2_def)
  from repeat_matchups_equal_weight [OF run k k' pair pol] run show ?thesis
    by blast
qed

lemmas calib_defs = calibration_errors_def include_game_def predict_game_def add_errors_def
  variable_def number_def season_left_by_loops_def item_def home_term_def

text \<open>
  C6. The calibration does not predict the away score by the rule of the search: for the
  first game of \<open>league2\<close>, with the aggregated ratings of \<open>league2_calib\<close>, it predicts
  27/2 where the rule \<open>max (off[away] - home_adv / 2 - def[home] + mean, 0)\<close> gives 19/2,
  because line 504 adds the defense rating of the home team where line 100 subtracts it.
\<close>

theorem calibration_away_score_differs:
  "\<exists>p. predict_game league2 league2_calib 0 = Inr p
      \<and> cal_predicted_away_score p = 27 / 2
      \<and> pred_away (median_team_off_ratings league2_calib ! 1)
           (median_team_def_ratings league2_calib ! 0) False
           (median_home_advantage league2_calib) (network_game_score_mean league2) = 19 / 2
      \<and> cal_predicted_home_score p =
          pred_home (median_team_off_ratings league2_calib ! 0)
           (median_team_def_ratings league2_calib ! 1) False
           (median_home_advantage league2_calib) (network_game_score_mean league2)"
  by (simp add: league2_def league2_calib_def calib_defs pred_away_def pred_home_def)

text \<open>
  C4. The calibration keeps a game whose policy weight is 0: in \<open>league2_prior\<close> the first
  game is of an earlier season and \<open>prior_season_weight\<close> is 0, yet the game is included
  and its errors are in all three samples, because the loop of line 482 compares the
  season left in \<open>cur_game_season\<close> by earlier loops, not the season of the game.
\<close>

theorem calibration_keeps_zero_weight_game:
  "cur_game_weight league2_prior 0 (input_games_season league2_prior ! 0) = Inr 0
   \<and> include_game league2_prior league2_prior_calib 0 = Inr True
   \<and> calibration_errors league2_prior league2_prior_calib =
       Inr \<lparr> prediction_errors = [1, - 5],
             score_prediction_errors = [1 / 2, 7 / 2, - 5 / 2, - 3 / 2],
             total_score_prediction_errors = [4, - 4] \<rparr>"
  by (simp add: league2_prior_def league2_prior_calib_def league2_def league2_calib_def
        calib_defs cur_game_weight_def)

subsection \<open>The ratings stay centred\<close>


lemma length_center [simp]: "length (center xs) = length xs"
  by (simp add: center_def)


lemma games_loop_frame:
  "games_loop env s gs = Inr s' \<Longrightarrow>
   \<exists>a b c d e f g h i j k l.
     s' = s\<lparr> total_team_weight := a, total_notneutral_weight := b,
             home_actual_margin_list := c, home_actual_off_score_list := d,
             home_actual_def_score_list := e, gt_game_weight_list := f,
             home_predicted_margin_list := g, home_predicted_off_score_list := h,
             home_predicted_def_score_list := i, total_team_off_margin_error_weight := j,
             total_team_def_margin_error_weight := k,
             total_home_margin_error_weight := l \<rparr>"
proof (induction gs arbitrary: s)
  case Nil
  then have "s' = s\<lparr> total_team_weight := total_team_weight s,
             total_notneutral_weight := total_notneutral_weight s,
             home_actual_margin_list := home_actual_margin_list s,
             home_actual_off_score_list := home_actual_off_score_list s,
             home_actual_def_score_list := home_actual_def_score_list s,
             gt_game_weight_list := gt_game_weight_list s,
             home_predicted_margin_list := home_predicted_margin_list s,
             home_predicted_off_score_list := home_predicted_off_score_list s,
             home_predicted_def_score_list := home_predicted_def_score_list s,
             total_team_off_margin_error_weight := total_team_off_margin_error_weight s,
             total_team_def_margin_error_weight := total_team_def_margin_error_weight s,
             total_home_margin_error_weight := total_home_margin_error_weight s \<rparr>"
    by simp
  then show ?case by blast
next
  case (Cons g gs)
  from Cons.prems obtain gm s1 s2 where
    s1: "store_first s gm = Inr s1" and s2: "store_errors s1 gm = Inr s2"
    and rest: "games_loop env s2 gs = Inr s'"
    by (auto simp: bnd_eq_Inr)
  from Cons.IH [OF rest] obtain a b c d e f g h i j k l where
    "s' = s2\<lparr> total_team_weight := a, total_notneutral_weight := b,
             home_actual_margin_list := c, home_actual_off_score_list := d,
             home_actual_def_score_list := e, gt_game_weight_list := f,
             home_predicted_margin_list := g, home_predicted_off_score_list := h,
             home_predicted_def_score_list := i, total_team_off_margin_error_weight := j,
             total_team_def_margin_error_weight := k,
             total_home_margin_error_weight := l \<rparr>"
    by blast
  then have "s' = s\<lparr> total_team_weight := a, total_notneutral_weight := b,
             home_actual_margin_list := c, home_actual_off_score_list := d,
             home_actual_def_score_list := e, gt_game_weight_list := f,
             home_predicted_margin_list := g, home_predicted_off_score_list := h,
             home_predicted_def_score_list := i, total_team_off_margin_error_weight := j,
             total_team_def_margin_error_weight := k,
             total_home_margin_error_weight := l \<rparr>"
    by (subst (asm) store_errors_frame [OF s2], subst (asm) store_first_frame [OF s1]) simp
  then show ?case by blast
qed

lemma games_loop_keeps:
  assumes "games_loop env s gs = Inr s'"
  shows "rated n s' = rated n s" and "zero_sums s' = zero_sums s"
    and "best_abs_total_error s' = best_abs_total_error s"
    and "iterations_since_last_update s' = iterations_since_last_update s"
    and "terminate_search s' = terminate_search s"
    and "draws_used s' = draws_used s"
  using games_loop_frame [OF assms] by (auto simp: rated_def zero_sums_def)

lemma start_iteration_keeps:
  "rated n (start_iteration env s) = rated n s"
  "zero_sums (start_iteration env s) = zero_sums s"
  "best_abs_total_error (start_iteration env s) = best_abs_total_error s"
  "iterations_since_last_update (start_iteration env s) = iterations_since_last_update s"
  "terminate_search (start_iteration env s) = terminate_search s"
  "draws_used (start_iteration env s) = draws_used s"
  by (simp_all add: start_iteration_def Let_def rated_def zero_sums_def)








subsection \<open>Running the search\<close>






text \<open>The second iteration of \<open>league2\<close> is no better than the first.\<close>

lemma league2_two_iterations:
  "\<exists>s. iterations league2_short 2 (initial_state league2_short) = Inr s
      \<and> terminate_search s
      \<and> cur_team_off_ratings s = [3 / 200, - (3 / 200)]
      \<and> best_team_off_ratings s = [0, 0] \<and> best_team_def_ratings s = [0, 0]"
  by (simp add: numeral_2_eq_2 league2_short_def league2_def model_defs divide_less_cancel)



subsection \<open>The lists of weights and weighted errors\<close>









subsection \<open>When the update of the ratings divides by zero\<close>







lemma league2_reset_run:
  "map_sum id (\<lambda>s. (iterations_since_last_update s, first_iteration s, terminate_search s,
                    cur_team_off_ratings s, cur_team_def_ratings s, cur_home_advantage s,
                    best_team_off_ratings s, best_team_def_ratings s, best_home_advantage s))
     (iterations (league2_reset F) 2 (initial_state (league2_reset F)))
   = Inr (1, False, False, [3 / 200, - (3 / 200)], [3 / 200, - (3 / 200)], 1 / 20,
          [0, 0], [0, 0], 0)"
  by (simp add: numeral_2_eq_2 league2_reset_def league2_def undo_draws_def
        iteration_def start_iteration_def initial_state_def cur_game_def
  store_first_def store_errors_def item_def lookup_def add_at_def cur_game_weight_def
  cur_game_gt_weight_def home_term_def track_best_def update_best_stats_def
  update_ratings_def update_home_advantage_def normal_def center_def mean_def
  abs_total_error_def cdf_error_def upt_rec Let_def)

text \<open>
  C8, as the program has it. When the counter of iterations without improvement reaches a
  multiple of the reset interval, the current offense, defense and overall ratings and the
  current home advantage are replaced by the best ones, element by element, in the middle
  of the iteration. If the counter is still below the stop threshold, the update of that
  same iteration is then applied to these ratings, so the next iteration starts from the
  updated best ratings; otherwise the search ends with the current ratings equal to the
  best ones.
\<close>

theorem reset_before_update:
  assumes s1: "games_loop env (start_iteration env s) (network_game_id_list env) = Inr s1"
    and nf: "\<not> first_iteration s"
    and best: "best_abs_total_error s = Some b"
    and worse: "\<not> abs_total_error env s1 < b"
    and reset: "iterations_before_reset env \<noteq> 0"
    and mult: "(iterations_since_last_update s + 1) mod iterations_before_reset env = 0"
  shows "\<exists>s2. track_best env s1 (abs_total_error env s1) = Inr s2
       \<and> cur_team_off_ratings s2 = best_team_off_ratings s
       \<and> cur_team_def_ratings s2 = best_team_def_ratings s
       \<and> cur_team_ratings s2 = best_team_ratings s
       \<and> cur_home_advantage s2 = best_home_advantage s
       \<and> best_team_off_ratings s2 = best_team_off_ratings s
       \<and> best_team_def_ratings s2 = best_team_def_ratings s
       \<and> best_team_ratings s2 = best_team_ratings s
       \<and> best_home_advantage s2 = best_home_advantage s
       \<and> iterations_since_last_update s2 = iterations_since_last_update s + 1
       \<and> iteration env s =
           (if iterations_since_last_update s + 1 < iterations_before_stop env
            then bnd (update_ratings env s2) (\<lambda>s3. Inr (s3\<lparr> first_iteration := False \<rparr>))
            else Inr (s2\<lparr> terminate_search := True, first_iteration := False \<rparr>))"
proof -
  note k = games_loop_keeps [OF s1] start_iteration_keeps
  have start: "best_team_off_ratings (start_iteration env s) = best_team_off_ratings s"
    "best_team_def_ratings (start_iteration env s) = best_team_def_ratings s"
    "best_team_ratings (start_iteration env s) = best_team_ratings s"
    "best_home_advantage (start_iteration env s) = best_home_advantage s"
    by (simp_all add: start_iteration_def Let_def)
  from games_loop_frame [OF s1] have
    "best_team_off_ratings s1 = best_team_off_ratings (start_iteration env s)"
    "best_team_def_ratings s1 = best_team_def_ratings (start_iteration env s)"
    "best_team_ratings s1 = best_team_ratings (start_iteration env s)"
    "best_home_advantage s1 = best_home_advantage (start_iteration env s)"
    "first_iteration s1 = first_iteration (start_iteration env s)"
    by auto
  then have same:
    "best_team_off_ratings s1 = best_team_off_ratings s"
    "best_team_def_ratings s1 = best_team_def_ratings s"
    "best_team_ratings s1 = best_team_ratings s"
    "best_home_advantage s1 = best_home_advantage s"
    "first_iteration s1 = first_iteration s"
    by (simp_all add: start start_iteration_fields)
  have b1: "best_abs_total_error s1 = Some b"
    "iterations_since_last_update s1 = iterations_since_last_update s"
    by (simp_all add: k best)
  let ?s2 = "s1\<lparr> iterations_since_last_update := iterations_since_last_update s + 1,
                    cur_team_off_ratings := best_team_off_ratings s,
                    cur_team_def_ratings := best_team_def_ratings s,
                    cur_team_ratings := best_team_ratings s,
                    cur_home_advantage := best_home_advantage s \<rparr>"
  have tb: "track_best env s1 (abs_total_error env s1) = Inr ?s2"
    using nf worse reset mult
    by (simp add: track_best_def update_best_stats_def same b1 Let_def)
  have "iteration env s =
           (if iterations_since_last_update s + 1 < iterations_before_stop env
            then bnd (update_ratings env ?s2) (\<lambda>s3. Inr (s3\<lparr> first_iteration := False \<rparr>))
            else Inr (?s2\<lparr> terminate_search := True, first_iteration := False \<rparr>))"
    by (simp add: iteration_def s1 tb)
  with tb show ?thesis
    by (intro exI [of _ ?s2]) (simp add: same)
qed

lemma league2_reset_second_iteration:
  "\<exists>s s1. iteration (league2_reset step_cdf) (initial_state (league2_reset step_cdf)) = Inr s
     \<and> \<not> first_iteration s \<and> \<not> terminate_search s \<and> best_team_off_ratings s = [0, 0]
     \<and> iterations_since_last_update s = 0
     \<and> games_loop (league2_reset step_cdf) (start_iteration (league2_reset step_cdf) s)
           (network_game_id_list (league2_reset step_cdf)) = Inr s1
     \<and> best_abs_total_error s = Some (2 / ln 2)
     \<and> abs_total_error (league2_reset step_cdf) s1 = 2 / ln 2"
  by (simp add: league2_reset_def league2_def undo_draws_def model_defs)

theorem reset_before_update_witness:
  "\<exists>s s2 s3. iteration (league2_reset step_cdf) (initial_state (league2_reset step_cdf)) = Inr s
     \<and> cur_team_off_ratings s2 = best_team_off_ratings s
     \<and> update_ratings (league2_reset step_cdf) s2 = Inr s3
     \<and> iteration (league2_reset step_cdf) s = Inr (s3\<lparr> first_iteration := False \<rparr>)
     \<and> cur_team_off_ratings s3 = [3 / 200, - (3 / 200)]
     \<and> best_team_off_ratings s = [0, 0]"
proof -
  let ?E = "league2_reset step_cdf"
  from league2_reset_second_iteration obtain s s1 where
    s: "iteration ?E (initial_state ?E) = Inr s"
    and nf: "\<not> first_iteration s" and nt: "\<not> terminate_search s"
    and b0: "best_team_off_ratings s = [0, 0]"
    and c0: "iterations_since_last_update s = 0"
    and s1: "games_loop ?E (start_iteration ?E s) (network_game_id_list ?E) = Inr s1"
    and best: "best_abs_total_error s = Some (2 / ln 2)"
    and err: "abs_total_error ?E s1 = 2 / ln 2"
    by blast
  have worse: "\<not> abs_total_error ?E s1 < 2 / ln 2"
    by (simp add: err)
  have reset: "iterations_before_reset ?E \<noteq> 0"
    and mult: "(iterations_since_last_update s + 1) mod iterations_before_reset ?E = 0"
    and stop: "iterations_since_last_update s + 1 < iterations_before_stop ?E"
    by (simp_all add: c0 league2_reset_def league2_def)
  from reset_before_update [OF s1 nf best worse reset mult] stop obtain s2 where
    cur: "cur_team_off_ratings s2 = best_team_off_ratings s"
    and it: "iteration ?E s = bnd (update_ratings ?E s2) (\<lambda>s3. Inr (s3\<lparr> first_iteration := False \<rparr>))"
    by auto
  have "iterations ?E 2 (initial_state ?E) = iteration ?E s"
    using s nt by (cases "iteration ?E s") (simp_all add: numeral_2_eq_2 initial_state_fields)
  with league2_reset_run [of step_cdf] obtain t where
    t: "iteration ?E s = Inr t" and ct: "cur_team_off_ratings t = [3 / 200, - (3 / 200)]"
    by (cases "iteration ?E s") auto
  from t it obtain s3 where s3: "update_ratings ?E s2 = Inr s3"
    and t_eq: "t = s3\<lparr> first_iteration := False \<rparr>"
    by (auto simp: bnd_eq_Inr)
  from ct t_eq have "cur_team_off_ratings s3 = [3 / 200, - (3 / 200)]"
    by simp
  with s cur s3 t t_eq b0 show ?thesis by blast
qed

text \<open>
  C8, as the claim has it, fails in \<open>league2\<close> with a reset interval of 1: the second
  iteration is no better than the first, the counter reaches 1, and the third iteration
  starts from ratings that are not the best ones.
\<close>

theorem next_state_is_not_best:
  "map_sum id iterations_since_last_update
     (iterations (league2_reset step_cdf) 2 (initial_state (league2_reset step_cdf))) = Inr 1
   \<and> map_sum id cur_team_off_ratings
     (iterations (league2_reset step_cdf) 2 (initial_state (league2_reset step_cdf)))
       = Inr [3 / 200, - (3 / 200)]
   \<and> map_sum id best_team_off_ratings
     (iterations (league2_reset step_cdf) 2 (initial_state (league2_reset step_cdf)))
       = Inr [0, 0]"
  using league2_reset_run [of step_cdf]
  by (cases "iterations (league2_reset step_cdf) 2 (initial_state (league2_reset step_cdf))")
     simp_all

subsection \<open>Finitely many errors\<close>



subsection \<open>The stored lists stay, the best error goes down\<close>















subsection \<open>The search ends\<close>








end
